theory Spec2Isabelle
  imports Complex_Main "HOL-Library.AList"
begin

section \<open>Python strings\<close>

text \<open>
  A Python \<open>str\<close> is modelled as a \<open>string\<close> whose characters are the code points
  0..255 (Latin-1), so \<open>length\<close> is Python's \<open>len\<close> on such strings. The helpers below
  follow \<open>str.isspace\<close>, \<open>str.lower\<close>, \<open>str.strip\<close>, \<open>str.split\<close> and the \<open>in\<close>
  operator on that range.
\<close>

definition py_isspace :: "char \<Rightarrow> bool" where
  "py_isspace c = ((of_char c :: nat) \<in> {9, 10, 11, 12, 13, 28, 29, 30, 31, 32, 133, 160})"

definition lower_char :: "char \<Rightarrow> char" where
  "lower_char c =
     (let n = (of_char c :: nat)
      in if (65 \<le> n \<and> n \<le> 90) \<or> (192 \<le> n \<and> n \<le> 222 \<and> n \<noteq> 215)
         then char_of (n + 32) else c)"

definition py_lower :: "string \<Rightarrow> string" where
  "py_lower s = map lower_char s"

text \<open>\<open>s.strip()\<close>: leading and trailing whitespace removed.\<close>

definition py_strip :: "string \<Rightarrow> string" where
  "py_strip s = rev (dropWhile py_isspace (rev (dropWhile py_isspace s)))"

text \<open>\<open>s.strip(c)\<close> for a one-character argument.\<close>

definition py_strip_char :: "char \<Rightarrow> string \<Rightarrow> string" where
  "py_strip_char c s = rev (dropWhile (\<lambda>x. x = c) (rev (dropWhile (\<lambda>x. x = c) s)))"

text \<open>\<open>sub in s\<close>: \<open>sub\<close> occurs in \<open>s\<close> as a contiguous substring.\<close>

fun py_in :: "string \<Rightarrow> string \<Rightarrow> bool" where
  "py_in sub [] = (sub = [])"
| "py_in sub (c # cs) = (take (length sub) (c # cs) = sub \<or> py_in sub cs)"

text \<open>\<open>s.split(c)\<close> with a one-character separator: empty pieces are kept.\<close>

fun split_on :: "char \<Rightarrow> string \<Rightarrow> string list" where
  "split_on c [] = [[]]"
| "split_on c (x # xs) =
     (if x = c then [] # split_on c xs
      else (case split_on c xs of
              [] \<Rightarrow> [[x]]
            | w # ws \<Rightarrow> (x # w) # ws))"

text \<open>
  \<open>s.split()\<close> with no argument: maximal runs of non-whitespace characters. The first
  argument holds the characters of the current word, latest first.
\<close>

fun split_ws :: "string \<Rightarrow> string \<Rightarrow> string list" where
  "split_ws w [] = (if w = [] then [] else [rev w])"
| "split_ws w (c # cs) =
     (if py_isspace c
      then (if w = [] then split_ws [] cs else rev w # split_ws [] cs)
      else split_ws (c # w) cs)"

definition py_split :: "string \<Rightarrow> string list" where
  "py_split s = split_ws [] s"

text \<open>\<open>str(n)\<close> for an integer.\<close>

fun str_nat :: "nat \<Rightarrow> string" where
  "str_nat n =
     (if n < 10 then [char_of (48 + n)]
      else str_nat (n div 10) @ [char_of (48 + n mod 10)])"

definition str_int :: "int \<Rightarrow> string" where
  "str_int i = (if i < 0 then CHR ''-'' # str_nat (nat (- i)) else str_nat (nat i))"

text \<open>\<open>xs[:n]\<close>: a negative bound counts from the end.\<close>

definition py_slice_to :: "int \<Rightarrow> 'a list \<Rightarrow> 'a list" where
  "py_slice_to n xs = (if n < 0 then take (nat (int (length xs) + n)) xs else take (nat n) xs)"


section \<open>Complexity classifier\<close>

datatype complexity = Simple | Medium | Complex

text \<open>
  \<open>_determine_query_complexity\<close>. The source also computes \<open>has_conditionals\<close>, which
  no branch reads; it is left out.
\<close>

definition has_multiple_questions :: "string \<Rightarrow> bool" where
  "has_multiple_questions query =
     (count_list query CHR ''?'' > 1
      \<or> py_in '' y '' (py_lower query)
      \<or> py_in '' o '' (py_lower query))"

definition has_comparisons :: "string \<Rightarrow> bool" where
  "has_comparisons query =
     list_ex (\<lambda>word. py_in word (py_lower query))
       [''comparar'', ''diferencia'', ''versus'', ''vs'', ''mejor'']"

definition determine_query_complexity :: "string \<Rightarrow> complexity" where
  "determine_query_complexity query =
     (let word_count = length (py_split query)
      in if word_count \<le> 5 \<and> \<not> has_multiple_questions query then Simple
         else if word_count > 15 \<or> has_multiple_questions query \<or> has_comparisons query
         then Complex
         else Medium)"

section \<open>Data model\<close>

datatype rewrite_strategy = EXPANSION | DECOMPOSITION | REFINEMENT | HYBRID

fun strategy_value :: "rewrite_strategy \<Rightarrow> string" where
  "strategy_value EXPANSION = ''expansion''"
| "strategy_value DECOMPOSITION = ''decomposition''"
| "strategy_value REFINEMENT = ''refinement''"
| "strategy_value HYBRID = ''hybrid''"

text \<open>The exceptions that no handler of \<open>QueryRewriter\<close> catches.\<close>

datatype py_error = KeyError | IndexError

text \<open>A call of an external service either raises (with the text of the exception) or returns.\<close>

datatype 'a response = Failed string | Ok 'a

text \<open>Values stored under the \<open>metadata\<close> key of a result.\<close>

datatype mval = MInt int | MFloat real | MBool bool | MStr string | MStrs "string list"

text \<open>
  The dictionary returned by \<open>rewrite\<close>. The keys \<open>metadata\<close> and \<open>error\<close> are present in
  some results only: \<open>None\<close> is an absent key. Dictionaries are association lists in
  insertion order (\<open>map_of\<close> reads, \<open>AList.update\<close> assigns, \<open>AList.delete\<close> removes).
\<close>

record rewrite_result =
  original :: string
  rewritten :: "string list"
  strategy_used :: string
  metadata :: "(string \<times> mval) list option"
  error :: "string option"

text \<open>The fields of a \<open>QueryRewriter\<close> that the methods read and write.\<close>

record rewriter =
  strategy :: rewrite_strategy
  max_queries :: int
  query_cache :: "(string \<times> rewrite_result) list"

text \<open>\<open>Optional[Dict[str, Any]]\<close>, with the values left abstract.\<close>

type_synonym 'v query_context = "(string \<times> 'v) list option"

text \<open>
  A request to the completion service. Each prompt is a fixed template filled with the
  query and \<open>self.max_queries\<close> (expansion, decomposition) or with the query and the
  context's conversation history (refinement), so a request is identified by those.
\<close>

datatype 'v llm_request =
    ExpandPrompt string int
  | DecomposePrompt string int
  | RefinePrompt string "'v query_context"

text \<open>
  What lies outside the repository: the completion and embedding services (text of
  \<open>response.choices[0].message.content\<close>, list of \<open>item.embedding\<close>; floats are
  idealised as reals), \<open>hashlib.md5(s.encode()).hexdigest()\<close> and \<open>str\<close> of a
  non-empty dictionary.
\<close>

record 'v world =
  completions_create :: "'v llm_request \<Rightarrow> string response"
  embeddings_create :: "string list \<Rightarrow> real list list response"
  md5_hexdigest :: "string \<Rightarrow> string"
  str_dict :: "(string \<times> 'v) list \<Rightarrow> string"


section \<open>Semantic deduplicator\<close>

definition cosine_similarity :: "real list \<Rightarrow> real list \<Rightarrow> real" where
  "cosine_similarity ei ej =
     (let dot_product = sum_list (map (\<lambda>(a, b). a * b) (zip ei ej));
          norm_i = sqrt (sum_list (map (\<lambda>a. a * a) ei));
          norm_j = sqrt (sum_list (map (\<lambda>a. a * a) ej))
      in if norm_i \<noteq> 0 \<and> norm_j \<noteq> 0 then dot_product / (norm_i * norm_j) else 0)"

text \<open>The two nested loops over \<open>range(len(embeddings))\<close> and \<open>range(i + 1, len(embeddings))\<close>.\<close>

definition similar_pairs_of :: "real list list \<Rightarrow> (nat \<times> nat \<times> real) list" where
  "similar_pairs_of embeddings =
     concat (map (\<lambda>i.
       concat (map (\<lambda>j.
         (let similarity = cosine_similarity (embeddings ! i) (embeddings ! j)
          in if similarity > 0.95 then [(i, j, similarity)] else []))
         [i + 1 ..< length embeddings]))
       [0 ..< length embeddings])"

definition calculate_semantic_similarity ::
  "'v world \<Rightarrow> string list \<Rightarrow> (nat \<times> nat \<times> real) list" where
  "calculate_semantic_similarity w queries =
     (if length queries \<le> 1 then []
      else (case embeddings_create w queries of
              Failed e \<Rightarrow> []
            | Ok embeddings \<Rightarrow> similar_pairs_of embeddings))"

text \<open>First loop of \<open>_deduplicate_queries\<close>: \<open>seen\<close> and \<open>unique_queries\<close> are its variables.\<close>

fun exact_unique :: "string set \<Rightarrow> string list \<Rightarrow> string list \<Rightarrow> string list" where
  "exact_unique seen unique_queries [] = unique_queries"
| "exact_unique seen unique_queries (q # qs) =
     (let q_lower = py_strip (py_lower q)
      in if q_lower \<notin> seen
         then exact_unique (insert q_lower seen) (unique_queries @ [q]) qs
         else exact_unique seen unique_queries qs)"

text \<open>
  Second loop: \<open>unique_queries[i]\<close> raises IndexError when the service returned more
  embeddings than it was given queries.
\<close>

fun mark_to_remove ::
  "string list \<Rightarrow> nat set \<Rightarrow> (nat \<times> nat \<times> real) list \<Rightarrow> py_error + nat set" where
  "mark_to_remove unique_queries to_remove [] = Inr to_remove"
| "mark_to_remove unique_queries to_remove ((i, j, similarity) # pairs) =
     (if i < length unique_queries \<and> j < length unique_queries
      then (if length (unique_queries ! i) > length (unique_queries ! j)
            then mark_to_remove unique_queries (insert i to_remove) pairs
            else mark_to_remove unique_queries (insert j to_remove) pairs)
      else Inl IndexError)"

definition deduplicate_queries :: "'v world \<Rightarrow> string list \<Rightarrow> py_error + string list" where
  "deduplicate_queries w queries =
     (if length queries \<le> 1 then Inr queries
      else
        (let unique_queries = exact_unique {} [] queries
         in if length unique_queries \<le> 1 then Inr unique_queries
            else
              (let similar_pairs = calculate_semantic_similarity w unique_queries
               in if similar_pairs = [] then Inr unique_queries
                  else (case mark_to_remove unique_queries {} similar_pairs of
                          Inl e \<Rightarrow> Inl e
                        | Inr to_remove \<Rightarrow>
                            Inr (map snd (filter (\<lambda>(idx, q). idx \<notin> to_remove)
                                            (enumerate 0 unique_queries)))))))"

section \<open>Variant generators\<close>

text \<open>
  The two lines that \<open>_expand_query\<close> and \<open>_decompose_query\<close> share: split the stripped
  completion at newlines, keep the stripped lines longer than 10 characters.
\<close>

definition generated_lines :: "string \<Rightarrow> string list" where
  "generated_lines content =
     map py_strip
       (filter (\<lambda>q. py_strip q \<noteq> [] \<and> length (py_strip q) > 10)
          (split_on (CHR 0x0A) (py_strip content)))"

text \<open>Every exception inside the \<open>try\<close> of a generator ends in its \<open>except\<close> branch.\<close>

definition expand_query ::
  "'v world \<Rightarrow> rewriter \<Rightarrow> string \<Rightarrow> 'v query_context \<Rightarrow> rewrite_result" where
  "expand_query w self query context =
     (case completions_create w (ExpandPrompt query (max_queries self)) of
        Failed e \<Rightarrow>
          \<lparr>original = query, rewritten = [query], strategy_used = ''expansion'',
           metadata = None, error = Some e\<rparr>
      | Ok content \<Rightarrow>
          (let expanded_queries = py_slice_to (max_queries self) (generated_lines content)
           in \<lparr>original = query, rewritten = [query] @ expanded_queries,
               strategy_used = ''expansion'',
               metadata = Some [(''num_variations'', MInt (int (length expanded_queries))),
                                (''temperature'', MFloat 0.4)],
               error = None\<rparr>))"

definition decompose_query ::
  "'v world \<Rightarrow> rewriter \<Rightarrow> string \<Rightarrow> 'v query_context \<Rightarrow> rewrite_result" where
  "decompose_query w self query context =
     (case completions_create w (DecomposePrompt query (max_queries self)) of
        Failed e \<Rightarrow>
          \<lparr>original = query, rewritten = [query], strategy_used = ''decomposition'',
           metadata = None, error = Some e\<rparr>
      | Ok content \<Rightarrow>
          (let sub_queries = py_slice_to (max_queries self) (generated_lines content)
           in \<lparr>original = query,
               rewritten = (if length sub_queries > 1 then sub_queries else [query]),
               strategy_used = ''decomposition'',
               metadata = Some [(''num_sub_queries'', MInt (int (length sub_queries))),
                                (''was_decomposed'', MBool (length sub_queries > 1)),
                                (''temperature'', MFloat 0.4)],
               error = None\<rparr>))"

definition refine_query ::
  "'v world \<Rightarrow> rewriter \<Rightarrow> string \<Rightarrow> 'v query_context \<Rightarrow> rewrite_result" where
  "refine_query w self query context =
     (case completions_create w (RefinePrompt query context) of
        Failed e \<Rightarrow>
          \<lparr>original = query, rewritten = [query], strategy_used = ''refinement'',
           metadata = None, error = Some e\<rparr>
      | Ok content \<Rightarrow>
          (let refined_query = py_strip_char (CHR 0x27) (py_strip_char (CHR 0x22) (py_strip content))
           in \<lparr>original = query,
               rewritten = (if refined_query \<noteq> [] \<and> refined_query \<noteq> query
                            then [refined_query] else [query]),
               strategy_used = ''refinement'',
               metadata = Some [(''refined'', MBool (refined_query \<noteq> query)),
                                (''temperature'', MFloat 0.2)],
               error = None\<rparr>))"


section \<open>Strategy orchestrator\<close>

definition adjust_max_queries :: "rewriter \<Rightarrow> string \<Rightarrow> int" where
  "adjust_max_queries self query =
     (case determine_query_complexity query of
        Simple \<Rightarrow> min 2 (max_queries self)
      | Complex \<Rightarrow> min 5 (max 3 (max_queries self))
      | Medium \<Rightarrow> max_queries self)"

text \<open>\<open>xs[0]\<close> raises IndexError on an empty list.\<close>

definition first_item :: "'a list \<Rightarrow> py_error + 'a" where
  "first_item xs = (case xs of [] \<Rightarrow> Inl IndexError | x # _ \<Rightarrow> Inr x)"

text \<open>
  The branch of \<open>_hybrid_rewrite\<close> chosen by the complexity: it yields \<open>all_queries\<close> and
  \<open>strategies_applied\<close>. \<open>self.max_queries\<close> is lowered for the expansion call only and
  set back right after it. An error result of \<open>_decompose_query\<close> has no \<open>metadata\<close> key,
  and reading it raises KeyError. The float product \<open>len(query) * 0.7\<close> is taken over
  the reals.
\<close>

definition hybrid_branch ::
  "'v world \<Rightarrow> rewriter \<Rightarrow> string \<Rightarrow> 'v query_context \<Rightarrow> complexity
     \<Rightarrow> py_error + (string list \<times> string list)" where
  "hybrid_branch w self query context complexity =
     (case complexity of
        Simple \<Rightarrow>
          (case first_item (rewritten (refine_query w self query context)) of
             Inl e \<Rightarrow> Inl e
           | Inr refined_query \<Rightarrow>
               (if refined_query \<noteq> query
                then Inr ([query, refined_query], [''refinement'', ''expansion''])
                else
                  (let expanded_result = expand_query w (self\<lparr>max_queries := 2\<rparr>) query context
                   in Inr (py_slice_to 2 (rewritten expanded_result),
                           [''refinement'', ''expansion'']))))
      | Complex \<Rightarrow>
          (let decomposed_result = decompose_query w self query context
           in case metadata decomposed_result of
                None \<Rightarrow> Inl KeyError
              | Some md \<Rightarrow>
                  (if map_of md ''was_decomposed'' = Some (MBool True)
                   then Inr (rewritten decomposed_result, [''decomposition''])
                   else
                     (case first_item (rewritten (refine_query w self query context)) of
                        Inl e \<Rightarrow> Inl e
                      | Inr refined_query \<Rightarrow>
                          (let expanded_result =
                                 expand_query w
                                   (self\<lparr>max_queries := max 2 (max_queries self - 1)\<rparr>)
                                   refined_query context
                           in Inr ([query, refined_query]
                                     @ filter (\<lambda>q. q \<notin> set [query, refined_query])
                                         (rewritten expanded_result),
                                   [''refinement'', ''expansion''])))))
      | Medium \<Rightarrow>
          (case first_item (rewritten (refine_query w self query context)) of
             Inl e \<Rightarrow> Inl e
           | Inr refined_query \<Rightarrow>
               (if refined_query \<noteq> query
                   \<and> real (length refined_query) > real (length query) * 0.7
                then
                  (let expanded_result =
                         expand_query w
                           (self\<lparr>max_queries := max 2 (max_queries self - 1)\<rparr>)
                           refined_query context;
                       expanded_queries = filter (\<lambda>q. q \<notin> set [query, refined_query])
                                            (rewritten expanded_result)
                   in Inr ([query, refined_query] @ expanded_queries,
                           [''refinement'', ''expansion'']))
                else
                  (let expanded_result =
                         expand_query w (self\<lparr>max_queries := max 2 (max_queries self)\<rparr>)
                           query context
                   in Inr (rewritten expanded_result, [''refinement'', ''expansion''])))))"

text \<open>The closing loop of \<open>_hybrid_rewrite\<close>, with its \<open>break\<close>.\<close>

fun hybrid_unique :: "int \<Rightarrow> string set \<Rightarrow> string list \<Rightarrow> string list \<Rightarrow> string list" where
  "hybrid_unique m seen unique_queries [] = unique_queries"
| "hybrid_unique m seen unique_queries (q # all_queries) =
     (let q_clean = py_lower (py_strip q)
      in if q_clean \<notin> seen \<and> length (py_strip q) > 10
         then (if int (length (unique_queries @ [py_strip q])) \<ge> m
               then unique_queries @ [py_strip q]
               else hybrid_unique m (insert q_clean seen) (unique_queries @ [py_strip q])
                      all_queries)
         else hybrid_unique m seen unique_queries all_queries)"

fun complexity_value :: "complexity \<Rightarrow> string" where
  "complexity_value Simple = ''simple''"
| "complexity_value Medium = ''medium''"
| "complexity_value Complex = ''complex''"

definition hybrid_rewrite ::
  "'v world \<Rightarrow> rewriter \<Rightarrow> string \<Rightarrow> 'v query_context \<Rightarrow> py_error + rewrite_result" where
  "hybrid_rewrite w self query context =
     (let complexity = determine_query_complexity query
      in case hybrid_branch w self query context complexity of
           Inl e \<Rightarrow> Inl e
         | Inr (all_queries, strategies_applied) \<Rightarrow>
             (let unique_queries = hybrid_unique (max_queries self) {} [] all_queries
              in Inr \<lparr>original = query, rewritten = unique_queries, strategy_used = ''hybrid'',
                      metadata = Some [(''num_variations'', MInt (int (length unique_queries))),
                                       (''strategies_applied'', MStrs strategies_applied),
                                       (''complexity'', MStr (complexity_value complexity))],
                      error = None\<rparr>))"

section \<open>Rewrite cache and \<open>rewrite\<close>\<close>

definition context_str :: "'v world \<Rightarrow> 'v query_context \<Rightarrow> string" where
  "context_str w context =
     (case context of
        None \<Rightarrow> []
      | Some [] \<Rightarrow> []
      | Some (kv # kvs) \<Rightarrow> str_dict w (kv # kvs))"

definition get_cache_key :: "'v world \<Rightarrow> rewriter \<Rightarrow> string \<Rightarrow> 'v query_context \<Rightarrow> string" where
  "get_cache_key w self query context =
     (let combined = query @ '':'' @ strategy_value (strategy self) @ '':''
                       @ str_int (max_queries self) @ '':'' @ context_str w context
      in md5_hexdigest w combined)"

text \<open>The strategy dispatch; the final \<open>else\<close> of the source has no enum member left.\<close>

definition run_strategy ::
  "'v world \<Rightarrow> rewriter \<Rightarrow> string \<Rightarrow> 'v query_context \<Rightarrow> py_error + rewrite_result" where
  "run_strategy w self query context =
     (case strategy self of
        EXPANSION \<Rightarrow> Inr (expand_query w self query context)
      | DECOMPOSITION \<Rightarrow> Inr (decompose_query w self query context)
      | REFINEMENT \<Rightarrow> Inr (refine_query w self query context)
      | HYBRID \<Rightarrow> hybrid_rewrite w self query context)"

text \<open>"Apply semantic deduplication": writing into an absent \<open>metadata\<close> raises KeyError.\<close>

definition apply_deduplication :: "'v world \<Rightarrow> rewrite_result \<Rightarrow> py_error + rewrite_result" where
  "apply_deduplication w result =
     (if length (rewritten result) > 1
      then
        (let original_count = length (rewritten result)
         in case deduplicate_queries w (rewritten result) of
              Inl e \<Rightarrow> Inl e
            | Inr deduplicated \<Rightarrow>
                (if length deduplicated < original_count
                 then (case metadata result of
                         None \<Rightarrow> Inl KeyError
                       | Some md \<Rightarrow>
                           Inr (result\<lparr>rewritten := deduplicated,
                                  metadata := Some
                                    (AList.update ''removed_duplicates''
                                       (MInt (int original_count - int (length deduplicated)))
                                       (AList.update ''deduplicated'' (MBool True) md))\<rparr>))
                 else Inr (result\<lparr>rewritten := deduplicated\<rparr>)))
      else Inr result)"

text \<open>"Cache the result" and "Limit cache size": the first key of the dictionary is popped.\<close>

definition cache_store ::
  "(string \<times> rewrite_result) list \<Rightarrow> string \<Rightarrow> rewrite_result \<Rightarrow> (string \<times> rewrite_result) list" where
  "cache_store cache cache_key result =
     (let cache' = AList.update cache_key result cache
      in if length cache' > 100
         then (case cache' of [] \<Rightarrow> cache' | (oldest, r) # rest \<Rightarrow> AList.delete oldest cache')
         else cache')"

text \<open>
  \<open>rewrite\<close> returns the result (or the exception that escapes) and the rewriter after the
  call. The \<open>finally\<close> clause sets \<open>max_queries\<close> back on both ways out.
\<close>

definition rewrite ::
  "'v world \<Rightarrow> rewriter \<Rightarrow> string \<Rightarrow> 'v query_context
     \<Rightarrow> (py_error + rewrite_result) \<times> rewriter" where
  "rewrite w self query context =
     (let cache_key = get_cache_key w self query context
      in case map_of (query_cache self) cache_key of
           Some cached \<Rightarrow> (Inr cached, self)
         | None \<Rightarrow>
             (let original_max = max_queries self;
                  adaptive_max = adjust_max_queries self query;
                  self1 = (if adaptive_max \<noteq> original_max
                           then self\<lparr>max_queries := adaptive_max\<rparr> else self)
              in case run_strategy w self1 query context of
                   Inl e \<Rightarrow> (Inl e, self1\<lparr>max_queries := original_max\<rparr>)
                 | Inr result \<Rightarrow>
                     (case apply_deduplication w result of
                        Inl e \<Rightarrow> (Inl e, self1\<lparr>max_queries := original_max\<rparr>)
                      | Inr result' \<Rightarrow>
                          (Inr result',
                           self1\<lparr>query_cache := cache_store (query_cache self1) cache_key result',
                                  max_queries := original_max\<rparr>))))"


section \<open>Retrieval fusion\<close>

text \<open>A hit as \<open>search\<close> formats it. Scores are floats, idealised as reals (no NaN).\<close>

record 'm document =
  content :: string
  doc_metadata :: 'm
  score :: real

text \<open>
  The fields of a \<open>VectorStore\<close> that \<open>search\<close> reads: the backend
  (\<open>None\<close> before any document was added), whose \<open>similarity_search_with_score\<close> raises
  or returns hits, and \<open>settings.top_k_results\<close>.
\<close>

record 'm vector_store_obj =
  vector_store :: "(string \<Rightarrow> int \<Rightarrow> 'm document list response) option"
  top_k_results :: int

text \<open>\<open>search\<close>: the handler logs and re-raises; \<open>Inl\<close> carries the exception.\<close>

definition search :: "'m vector_store_obj \<Rightarrow> string \<Rightarrow> int option \<Rightarrow> string + 'm document list" where
  "search vs query top_k =
     (case vector_store vs of
        None \<Rightarrow> Inr []
      | Some backend \<Rightarrow>
          (let k = (case top_k of
                      None \<Rightarrow> top_k_results vs
                    | Some n \<Rightarrow> if n = 0 then top_k_results vs else n)
           in case backend query k of
                Failed e \<Rightarrow> Inl e
              | Ok results \<Rightarrow> Inr results))"

text \<open>The inner loop of \<open>search_multiple\<close> over the hits of one query.\<close>

fun add_results ::
  "bool \<Rightarrow> 'm document list \<times> string set \<Rightarrow> 'm document list
     \<Rightarrow> 'm document list \<times> string set" where
  "add_results deduplicate (all_results, seen_contents) [] = (all_results, seen_contents)"
| "add_results deduplicate (all_results, seen_contents) (result # results) =
     (if deduplicate
      then (if content result \<notin> seen_contents
            then add_results deduplicate
                   (all_results @ [result], insert (content result) seen_contents) results
            else add_results deduplicate (all_results, seen_contents) results)
      else add_results deduplicate (all_results @ [result], seen_contents) results)"

text \<open>The outer loop: an exception of \<open>search\<close> leaves the loop and the method.\<close>

fun search_each ::
  "'m vector_store_obj \<Rightarrow> int option \<Rightarrow> bool \<Rightarrow> 'm document list \<times> string set
     \<Rightarrow> string list \<Rightarrow> string + 'm document list" where
  "search_each vs top_k deduplicate (all_results, seen_contents) [] = Inr all_results"
| "search_each vs top_k deduplicate (all_results, seen_contents) (query # queries) =
     (case search vs query top_k of
        Inl e \<Rightarrow> Inl e
      | Inr results \<Rightarrow>
          search_each vs top_k deduplicate
            (add_results deduplicate (all_results, seen_contents) results) queries)"

text \<open>
  \<open>all_results.sort(key=score, reverse=True)\<close> is a stable sort by descending score,
  as is \<open>sort_key\<close> on the negated score.
\<close>

definition search_multiple ::
  "'m vector_store_obj \<Rightarrow> string list \<Rightarrow> int option \<Rightarrow> bool \<Rightarrow> string + 'm document list" where
  "search_multiple vs queries top_k deduplicate =
     (case search_each vs top_k deduplicate ([], {}) queries of
        Inl e \<Rightarrow> Inl e
      | Inr all_results \<Rightarrow> Inr (sort_key (\<lambda>x. - score x) all_results))"


section \<open>Specification vocabulary\<close>




section \<open>Concrete inputs\<close>



definition doc3 :: "unit document" where
  "doc3 = \<lparr>content = ''x'', doc_metadata = (), score = 0.7\<rparr>"


definition store_partial :: "unit vector_store_obj" where
  "store_partial = \<lparr>vector_store = Some (\<lambda>q k. if q = ''a'' then Failed ''unreachable'' else Ok [doc3]),
               top_k_results = 5\<rparr>"


section \<open>Complexity classifier: properties\<close>

text \<open>
  C7. The classifier is a function of the query alone. A query of at most 5
  whitespace-delimited words with at most one question mark and neither \<open>" y "\<close> nor
  \<open>" o "\<close> in its lower-cased text is \<open>simple\<close>; a query of more than 15 words is
  \<open>complex\<close>.
\<close>

theorem classify_simple_complex:
  "(length (py_split query) \<le> 5 \<and> count_list query CHR ''?'' \<le> 1
      \<and> \<not> py_in '' y '' (py_lower query) \<and> \<not> py_in '' o '' (py_lower query)
      \<longrightarrow> determine_query_complexity query = Simple)
   \<and> (length (py_split query) > 15 \<longrightarrow> determine_query_complexity query = Complex)"
  by (simp add: determine_query_complexity_def has_multiple_questions_def Let_def)

theorem classify_simple_complex_witness:
  "determine_query_complexity ''What is AI?'' = Simple
   \<and> determine_query_complexity ''a b c d e f g h i j k l m n o p'' = Complex"
proof -
  have s: "length (py_split ''What is AI?'') \<le> 5 \<and> count_list ''What is AI?'' CHR ''?'' \<le> 1
      \<and> \<not> py_in '' y '' (py_lower ''What is AI?'') \<and> \<not> py_in '' o '' (py_lower ''What is AI?'')"
    by code_simp
  have c: "length (py_split ''a b c d e f g h i j k l m n o p'') > 15"
    by code_simp
  from s c classify_simple_complex [of "''What is AI?''"]
    classify_simple_complex [of "''a b c d e f g h i j k l m n o p''"]
  show ?thesis by blast
qed


section \<open>Retrieval fusion: properties\<close>







lemma search_each_raises:
  "search_each vs top_k deduplicate acc queries = Inl e \<longleftrightarrow>
     (\<exists>qs1 q qs2. queries = qs1 @ q # qs2 \<and> search vs q top_k = Inl e
        \<and> (\<forall>q' \<in> set qs1. \<exists>results. search vs q' top_k = Inr results))"
proof (induction queries arbitrary: acc)
  case Nil
  then show ?case by (cases acc) simp
next
  case (Cons q qs)
  obtain a s where acc: "acc = (a, s)" by (cases acc)
  show ?case
  proof (cases "search vs q top_k")
    case (Inl e')
    show ?thesis
    proof
      assume "search_each vs top_k deduplicate acc (q # qs) = Inl e"
      with Inl acc have "e' = e" by simp
      with Inl have "q # qs = [] @ q # qs \<and> search vs q top_k = Inl e
          \<and> (\<forall>q' \<in> set []. \<exists>results. search vs q' top_k = Inr results)" by simp
      then show "\<exists>qs1 q' qs2. q # qs = qs1 @ q' # qs2 \<and> search vs q' top_k = Inl e
          \<and> (\<forall>q' \<in> set qs1. \<exists>results. search vs q' top_k = Inr results)" by blast
    next
      assume "\<exists>qs1 q' qs2. q # qs = qs1 @ q' # qs2 \<and> search vs q' top_k = Inl e
          \<and> (\<forall>q' \<in> set qs1. \<exists>results. search vs q' top_k = Inr results)"
      then obtain qs1 q' qs2 where d: "q # qs = qs1 @ q' # qs2" "search vs q' top_k = Inl e"
          "\<forall>q' \<in> set qs1. \<exists>results. search vs q' top_k = Inr results" by blast
      have "qs1 = []"
      proof (cases qs1)
        case (Cons x xs)
        with d(1) have "x = q" by simp
        with d(3) Cons Inl show ?thesis by auto
      qed simp
      with d Inl have "e' = e" by simp
      with Inl acc show "search_each vs top_k deduplicate acc (q # qs) = Inl e" by simp
    qed
  next
    case (Inr results)
    have step: "search_each vs top_k deduplicate acc (q # qs)
        = search_each vs top_k deduplicate (add_results deduplicate (a, s) results) qs"
      using Inr acc by simp
    show ?thesis
    proof
      assume "search_each vs top_k deduplicate acc (q # qs) = Inl e"
      with step have "search_each vs top_k deduplicate (add_results deduplicate (a, s) results) qs = Inl e"
        by simp
      then obtain qs1 q' qs2 where d: "qs = qs1 @ q' # qs2"
          "search vs q' top_k = Inl e"
          "\<forall>q' \<in> set qs1. \<exists>results. search vs q' top_k = Inr results"
        using Cons.IH by blast
      from d Inr have "q # qs = (q # qs1) @ q' # qs2 \<and> search vs q' top_k = Inl e
          \<and> (\<forall>q' \<in> set (q # qs1). \<exists>results. search vs q' top_k = Inr results)" by simp
      then show "\<exists>qs1 q' qs2. q # qs = qs1 @ q' # qs2 \<and> search vs q' top_k = Inl e
          \<and> (\<forall>q' \<in> set qs1. \<exists>results. search vs q' top_k = Inr results)" by blast
    next
      assume "\<exists>qs1 q' qs2. q # qs = qs1 @ q' # qs2 \<and> search vs q' top_k = Inl e
          \<and> (\<forall>q' \<in> set qs1. \<exists>results. search vs q' top_k = Inr results)"
      then obtain qs1 q' qs2 where d: "q # qs = qs1 @ q' # qs2" "search vs q' top_k = Inl e"
          "\<forall>q' \<in> set qs1. \<exists>results. search vs q' top_k = Inr results" by blast
      from d(1,2) Inr obtain qs1' where c: "qs1 = q # qs1'" by (cases qs1) auto
      with d have "qs = qs1' @ q' # qs2 \<and> search vs q' top_k = Inl e
          \<and> (\<forall>q' \<in> set qs1'. \<exists>results. search vs q' top_k = Inr results)" by simp
      then have "search_each vs top_k deduplicate (add_results deduplicate (a, s) results) qs = Inl e"
        using Cons.IH by blast
      with step show "search_each vs top_k deduplicate acc (q # qs) = Inl e" by simp
    qed
  qed
qed

text \<open>
  C3, as the code has it. \<open>search_multiple\<close> raises exactly when the search of some
  variant raises, and it raises the exception of the first such variant: no failed
  variant is taken as an empty hit list, and no fused result is returned once one
  search has failed.
\<close>

theorem search_multiple_raises_first_failure:
  "search_multiple vs queries top_k deduplicate = Inl e \<longleftrightarrow>
     (\<exists>qs1 q qs2. queries = qs1 @ q # qs2 \<and> search vs q top_k = Inl e
        \<and> (\<forall>q' \<in> set qs1. \<exists>results. search vs q' top_k = Inr results))"
proof -
  have "search_multiple vs queries top_k deduplicate = Inl e
      \<longleftrightarrow> search_each vs top_k deduplicate ([], {}) queries = Inl e"
    by (simp add: search_multiple_def split: sum.splits)
  then show ?thesis by (simp only: search_each_raises)
qed

theorem search_multiple_raises_witness:
  "search_multiple store_partial [''b'', ''a''] None True = Inl ''unreachable''"
proof -
  have "[''b'', ''a''] = [''b''] @ ''a'' # [] \<and> search store_partial ''a'' None = Inl ''unreachable''
        \<and> (\<forall>q' \<in> set [''b'']. \<exists>results. search store_partial q' None = Inr results)"
    by (simp add: search_def store_partial_def)
  then show ?thesis
    using search_multiple_raises_first_failure
            [of store_partial "[''b'', ''a'']" None True "''unreachable''"]
    by blast
qed

text \<open>
  The backend fails for the variant \<open>a\<close> and answers for the variant \<open>b\<close>; the fusion of
  both raises instead of returning the hit of \<open>b\<close>.
\<close>

theorem partial_failure_counterexample:
  "search store_partial ''a'' None = Inl ''unreachable''
   \<and> search store_partial ''b'' None = Inr [doc3]
   \<and> search_multiple store_partial [''a'', ''b''] None True = Inl ''unreachable''"
  by (simp add: search_multiple_def search_def store_partial_def)

end
